theory Spec2Isabelle
  imports Main
begin

section \<open>Python values and exceptions\<close>

text \<open>
  The values that move through \<^verbatim>\<open>verschemes\<close>: a field value is \<^verbatim>\<open>None\<close>, an
  \<^verbatim>\<open>int\<close> or a \<^verbatim>\<open>str\<close>; a segment value is a field value or a tuple of field
  values. Strings are ASCII byte strings. The comparison semantics is Python 3's (the
  module is written against the \<^verbatim>\<open>future\<close> package, which gives Python 2 the same
  behaviour).
\<close>

datatype scalar = SNone | SInt int | SStr string

datatype pyval = Atom scalar | Tuple "scalar list"

abbreviation PNone :: pyval where "PNone \<equiv> Atom SNone"

datatype reason =
    FieldNamesNotUnique
  | SegmentNameUnderscore
  | SegmentNameNotIdentifier
  | TooManyFieldValues
  | NoMatchSegment
  | RequiredSegment
  | NoMatchVersionString
  | TooManySegmentValues
  | ValuesRequired
  | NoSuchSegment
  | SegmentNamesNotUnique
  | TupleItemAssignment
  | InvalidLiteralForInt
  | IntOfNone
  | Unorderable
  | NotSubscriptable
  | OutOfRange
  | Foreign

datatype error =
    ValueError reason
  | TypeError reason
  | KeyError reason
  | IndexError reason
  | OtherException reason

subsection \<open>\<^verbatim>\<open>str(int)\<close> and \<^verbatim>\<open>int(str)\<close>\<close>

definition digit_char :: "nat \<Rightarrow> char" where
  "digit_char d = ''0123456789'' ! d"

function digits :: "nat \<Rightarrow> string" where
  "digits n = (if n < 10 then [digit_char n] else digits (n div 10) @ [digit_char (n mod 10)])"
  by pat_completeness auto
termination
  by (relation "measure (\<lambda>n. n)") auto

declare digits.simps [simp del]

definition str_int :: "int \<Rightarrow> string" where
  "str_int i = (if i < 0 then CHR ''-'' # digits (nat (- i)) else digits (nat i))"

fun py_str :: "scalar \<Rightarrow> string" where
  "py_str SNone = ''None''"
| "py_str (SInt i) = str_int i"
| "py_str (SStr s) = s"

definition is_digit :: "char \<Rightarrow> bool" where
  "is_digit c = (c \<in> set ''0123456789'')"

definition is_space :: "char \<Rightarrow> bool" where
  "is_space c = (c \<in> {CHR '' '', CHR 0x09, CHR 0x0A, CHR 0x0B, CHR 0x0C, CHR 0x0D})"

definition digit_val :: "char \<Rightarrow> nat" where
  "digit_val c = of_char c - 48"

definition digits_val :: "string \<Rightarrow> nat" where
  "digits_val ds = foldl (\<lambda>acc c. acc * 10 + digit_val c) 0 ds"

definition strip :: "string \<Rightarrow> string" where
  "strip s = rev (dropWhile is_space (rev (dropWhile is_space s)))"

text \<open>
  \<^verbatim>\<open>int(s)\<close> for a string: surrounding whitespace is dropped, one sign is allowed,
  and at least one decimal digit must follow. (Digit-group underscores and non-ASCII
  digits are not modelled: such a text is a \<^verbatim>\<open>ValueError\<close> here.)
\<close>

definition int_of_str :: "string \<Rightarrow> error + int" where
  "int_of_str s =
     (let t = strip s;
          neg = (t \<noteq> [] \<and> hd t = CHR ''-'');
          ds = (if t \<noteq> [] \<and> (hd t = CHR ''-'' \<or> hd t = CHR ''+'') then tl t else t)
      in if ds \<noteq> [] \<and> list_all is_digit ds
         then Inr (if neg then - int (digits_val ds) else int (digits_val ds))
         else Inl (ValueError InvalidLiteralForInt))"

subsection \<open>Field types\<close>

datatype ftype = TInt | TStr

text \<open>\<^verbatim>\<open>x.type(y)\<close>: the call of a field's type on a field value.\<close>

fun apply_type :: "ftype \<Rightarrow> scalar \<Rightarrow> error + scalar" where
  "apply_type TInt (SInt i) = Inr (SInt i)"
| "apply_type TInt (SStr s) = (case int_of_str s of Inl e \<Rightarrow> Inl e | Inr i \<Rightarrow> Inr (SInt i))"
| "apply_type TInt SNone = Inl (TypeError IntOfNone)"
| "apply_type TStr v = Inr (SStr (py_str v))"

section \<open>Regular expressions\<close>

text \<open>
  The patterns are kept as syntax trees, and the module's string concatenation of
  pattern texts is done on the trees. The matcher follows the backtracking order of
  Python's \<^verbatim>\<open>re\<close> on the fragment the library's patterns are written in: character
  classes, concatenation, alternation (left first), greedy \<^verbatim>\<open>?\<close>, greedy \<^verbatim>\<open>*\<close> on a
  character class, named groups, one-character look-behind, \<^verbatim>\<open>^\<close> and \<^verbatim>\<open>$\<close>.
\<close>

datatype regex =
    Eps
  | Chars "char list"
  | Cat regex regex
  | Alt regex regex
  | Opt regex
  | Rep "char list"
  | Group string regex
  | Behind "char list"
  | NotBehind "char list"
  | Bol
  | Eol

datatype item = M regex | Close string string

fun rsize :: "regex \<Rightarrow> nat" where
  "rsize (Cat a b) = Suc (rsize a + rsize b)"
| "rsize (Alt a b) = Suc (rsize a + rsize b)"
| "rsize (Opt a) = Suc (rsize a)"
| "rsize (Group n a) = Suc (rsize a)"
| "rsize r = 1"

fun iweight :: "item \<Rightarrow> nat" where
  "iweight (M r) = 2 * rsize r + 1"
| "iweight (Close n s) = 1"

type_synonym captures = "string \<rightharpoonup> string"

text \<open>
  \<open>rmatch k p s c\<close>: match the stack \<open>k\<close> of pending patterns against the rest \<open>s\<close> of
  the text, \<open>p\<close> being the character just before \<open>s\<close> and \<open>c\<close> the groups captured so
  far. \<open>Close n s0\<close> ends group \<open>n\<close>, opened when the rest was \<open>s0\<close>.
\<close>

function rmatch :: "item list \<Rightarrow> char option \<Rightarrow> string \<Rightarrow> captures \<Rightarrow> captures option" where
  "rmatch [] p s c = Some c"
| "rmatch (Close n s0 # k) p s c = rmatch k p s (c(n \<mapsto> take (length s0 - length s) s0))"
| "rmatch (M Eps # k) p s c = rmatch k p s c"
| "rmatch (M (Chars cs) # k) p [] c = None"
| "rmatch (M (Chars cs) # k) p (x # xs) c =
     (if x \<in> set cs then rmatch k (Some x) xs c else None)"
| "rmatch (M (Cat a b) # k) p s c = rmatch (M a # M b # k) p s c"
| "rmatch (M (Alt a b) # k) p s c =
     (case rmatch (M a # k) p s c of Some r \<Rightarrow> Some r | None \<Rightarrow> rmatch (M b # k) p s c)"
| "rmatch (M (Opt a) # k) p s c =
     (case rmatch (M a # k) p s c of Some r \<Rightarrow> Some r | None \<Rightarrow> rmatch k p s c)"
| "rmatch (M (Rep cs) # k) p [] c = rmatch k p [] c"
| "rmatch (M (Rep cs) # k) p (x # xs) c =
     (if x \<in> set cs
      then (case rmatch (M (Rep cs) # k) (Some x) xs c of
              Some r \<Rightarrow> Some r
            | None \<Rightarrow> rmatch k p (x # xs) c)
      else rmatch k p (x # xs) c)"
| "rmatch (M (Group n a) # k) p s c = rmatch (M a # Close n s # k) p s c"
| "rmatch (M (Behind cs) # k) p s c =
     (case p of None \<Rightarrow> None | Some x \<Rightarrow> if x \<in> set cs then rmatch k p s c else None)"
| "rmatch (M (NotBehind cs) # k) p s c =
     (case p of None \<Rightarrow> rmatch k p s c
      | Some x \<Rightarrow> if x \<in> set cs then None else rmatch k p s c)"
| "rmatch (M Bol # k) p s c = (if p = None then rmatch k p s c else None)"
| "rmatch (M Eol # k) p s c =
     (if s = [] \<or> s = [CHR 0x0A] then rmatch k p s c else None)"
  by pat_completeness auto
termination
  by (relation "measure (\<lambda>(k, p, s, c). sum_list (map iweight k) + length s)") auto

text \<open>\<^verbatim>\<open>re.match(pattern, string)\<close>: the captured groups, or \<open>None\<close>.\<close>

definition re_match :: "regex \<Rightarrow> string \<Rightarrow> captures option" where
  "re_match r s = rmatch [M r] None s Map.empty"

text \<open>The names of the groups of a pattern, in the order of their opening.\<close>

fun group_names :: "regex \<Rightarrow> string list" where
  "group_names (Cat a b) = group_names a @ group_names b"
| "group_names (Alt a b) = group_names a @ group_names b"
| "group_names (Opt a) = group_names a"
| "group_names (Group n a) = n # group_names a"
| "group_names r = []"

text \<open>\<^verbatim>\<open>re.escape(s)\<close> as a pattern: the text \<open>s\<close> itself.\<close>

fun literal :: "string \<Rightarrow> regex" where
  "literal [] = Eps"
| "literal (x # xs) = Cat (Chars [x]) (literal xs)"

text \<open>\<^verbatim>\<open>"".join(...)\<close> of patterns.\<close>

fun cat_all :: "regex list \<Rightarrow> regex" where
  "cat_all [] = Eps"
| "cat_all (r # rs) = Cat r (cat_all rs)"

section \<open>Segment fields and segment definitions\<close>

text \<open>
  \<^verbatim>\<open>SegmentField = namedtuple('SegmentField', 'type name re_pattern render')\<close>, with the
  defaults \<^verbatim>\<open>(int, 'value', '0|[1-9][0-9]*', str)\<close>.
\<close>

record SegmentField =
  sf_type :: ftype
  sf_name :: string
  sf_re_pattern :: regex
  sf_render :: "scalar \<Rightarrow> string"

definition digit19 :: "char list" where
  "digit19 = ''123456789''"

definition digit09 :: "char list" where
  "digit09 = ''0123456789''"

definition DEFAULT_PATTERN :: regex where
  "DEFAULT_PATTERN = Alt (Chars ''0'') (Cat (Chars digit19) (Rep digit09))"

definition DEFAULT_SEGMENT_FIELD :: SegmentField where
  "DEFAULT_SEGMENT_FIELD =
     \<lparr>sf_type = TInt, sf_name = ''value'', sf_re_pattern = DEFAULT_PATTERN, sf_render = py_str\<rparr>"

definition DEFAULT_SEGMENT_SEPARATOR :: string where
  "DEFAULT_SEGMENT_SEPARATOR = ''.''"

text \<open>
  \<^verbatim>\<open>_SegmentDefinition = namedtuple('_SegmentDefinition', 'optional default separator fields name')\<close>.
  A default of \<^verbatim>\<open>None\<close> is \<open>PNone\<close>; a name of \<^verbatim>\<open>None\<close> is \<open>None\<close>.
\<close>

record SegmentDefinition =
  sd_optional :: bool
  sd_default :: pyval
  sd_separator :: string
  sd_fields :: "SegmentField list"
  sd_name :: "string option"

text \<open>\<^verbatim>\<open>x.render(None if y is None else x.type(y))\<close> for one field and one value.\<close>

definition render_typed :: "SegmentField \<Rightarrow> scalar \<Rightarrow> error + string" where
  "render_typed x y =
     (if y = SNone then Inr (sf_render x SNone)
      else case apply_type (sf_type x) y of
             Inl e \<Rightarrow> Inl e
           | Inr v \<Rightarrow> Inr (sf_render x v))"

text \<open>The generator inside \<^verbatim>\<open>"".join(...)\<close>, stopping at the first exception.\<close>

fun join_rendered :: "(SegmentField \<times> scalar) list \<Rightarrow> error + string" where
  "join_rendered [] = Inr []"
| "join_rendered ((x, y) # rest) =
     (case render_typed x y of
        Inl e \<Rightarrow> Inl e
      | Inr t \<Rightarrow> (case join_rendered rest of Inl e \<Rightarrow> Inl e | Inr ts \<Rightarrow> Inr (t @ ts)))"

text \<open>\<^verbatim>\<open>'^' + "".join('(?P<{}>{})'.format(x.name, x.re_pattern) for x in fields) + '$'\<close>\<close>

definition fields_pattern :: "SegmentField list \<Rightarrow> regex" where
  "fields_pattern flds =
     Cat Bol (Cat (cat_all (map (\<lambda>x. Group (sf_name x) (sf_re_pattern x)) flds)) Eol)"

text \<open>
  One element of the \<^verbatim>\<open>result\<close> list: \<^verbatim>\<open>None\<close> for an empty capture of a field
  whose type is not \<^verbatim>\<open>str\<close>, else the field's type called on the capture.
  \<^verbatim>\<open>match.group(name)\<close> is \<^verbatim>\<open>None\<close> for a group that took no part in the match.
\<close>

definition decode_field :: "captures \<Rightarrow> SegmentField \<Rightarrow> error + scalar" where
  "decode_field m x =
     (case m (sf_name x) of
        None \<Rightarrow> apply_type (sf_type x) SNone
      | Some g \<Rightarrow> if g = [] \<and> sf_type x \<noteq> TStr then Inr SNone
                 else apply_type (sf_type x) (SStr g))"

fun decode_fields :: "captures \<Rightarrow> SegmentField list \<Rightarrow> error + scalar list" where
  "decode_fields m [] = Inr []"
| "decode_fields m (x # xs) =
     (case decode_field m x of
        Inl e \<Rightarrow> Inl e
      | Inr v \<Rightarrow> (case decode_fields m xs of Inl e \<Rightarrow> Inl e | Inr vs \<Rightarrow> Inr (v # vs)))"

text \<open>The padding loop \<^verbatim>\<open>while len(values) < len(fields): values.append(None)\<close>.\<close>

function pad_values :: "nat \<Rightarrow> 'a \<Rightarrow> 'a list \<Rightarrow> 'a list" where
  "pad_values n a values = (if length values < n then pad_values n a (values @ [a]) else values)"
  by pat_completeness auto
termination
  by (relation "measure (\<lambda>(n, a, values). n - length values)") auto

declare pad_values.simps [simp del]

text \<open>
  The text that \<^verbatim>\<open>_validate_value\<close> matches: a \<^verbatim>\<open>str\<close> is taken as it is, any other
  value is made a list (an iterable by \<^verbatim>\<open>list(value)\<close>, anything else as the one
  element), checked against the number of fields, padded and rendered.
\<close>

definition value_string :: "pyval \<Rightarrow> SegmentField list \<Rightarrow> error + string" where
  "value_string v flds =
     (case v of
        Atom (SStr s) \<Rightarrow> Inr s
      | _ \<Rightarrow>
         (let values = (case v of Tuple ys \<Rightarrow> ys | Atom y \<Rightarrow> [y])
          in if length values > length flds then Inl (ValueError TooManyFieldValues)
             else join_rendered (zip flds (pad_values (length flds) SNone values))))"

text \<open>\<^verbatim>\<open>SegmentDefinition._validate_value(value, fields)\<close>\<close>

definition validate_value_fields :: "pyval \<Rightarrow> SegmentField list \<Rightarrow> error + pyval" where
  "validate_value_fields v flds =
     (case value_string v flds of
        Inl e \<Rightarrow> Inl e
      | Inr text \<Rightarrow>
         (case re_match (fields_pattern flds) text of
            None \<Rightarrow> Inl (ValueError NoMatchSegment)
          | Some m \<Rightarrow>
             (case decode_fields m flds of
                Inl e \<Rightarrow> Inl e
              | Inr result \<Rightarrow>
                  Inr (if length flds = 1 then Atom (hd result) else Tuple result))))"

text \<open>\<^verbatim>\<open>str.isidentifier\<close> on ASCII text.\<close>

definition is_alpha :: "char \<Rightarrow> bool" where
  "is_alpha c =
     (c \<in> set ''abcdefghijklmnopqrstuvwxyzABCDEFGHIJKLMNOPQRSTUVWXYZ'')"

definition isidentifier :: "string \<Rightarrow> bool" where
  "isidentifier s =
     (case s of
        [] \<Rightarrow> False
      | x # xs \<Rightarrow> (is_alpha x \<or> x = CHR ''_'') \<and>
                  list_all (\<lambda>c. is_alpha c \<or> is_digit c \<or> c = CHR ''_'') xs)"

text \<open>
  \<^verbatim>\<open>SegmentDefinition.__new__(cls, optional, default, separator, fields, name)\<close>. The field
  list is a list of \<open>SegmentField\<close> by its type, so the \<^verbatim>\<open>isinstance\<close> checks are
  passed; a \<^verbatim>\<open>name\<close> of \<^verbatim>\<open>None\<close> or \<^verbatim>\<open>''\<close> is falsy.
\<close>

definition SegmentDefinition_new ::
  "bool \<Rightarrow> pyval \<Rightarrow> string \<Rightarrow> SegmentField list \<Rightarrow> string option \<Rightarrow> error + SegmentDefinition"
where
  "SegmentDefinition_new optional dflt separator flds name =
     (if length (remdups (map sf_name flds)) < length flds
      then Inl (ValueError FieldNamesNotUnique)
      else case (if dflt \<noteq> PNone then validate_value_fields dflt flds else Inr dflt) of
             Inl e \<Rightarrow> Inl e
           | Inr d \<Rightarrow>
              (case name of
                 Some (x # xs) \<Rightarrow>
                   if x = CHR ''_'' then Inl (ValueError SegmentNameUnderscore)
                   else if \<not> isidentifier (x # xs) then Inl (ValueError SegmentNameNotIdentifier)
                   else Inr \<lparr>sd_optional = optional, sd_default = d, sd_separator = separator,
                             sd_fields = flds, sd_name = Some (x # xs)\<rparr>
               | _ \<Rightarrow> Inr \<lparr>sd_optional = optional, sd_default = d, sd_separator = separator,
                          sd_fields = flds, sd_name = None\<rparr>))"

definition DEFAULT_SEGMENT_DEFINITION :: SegmentDefinition where
  "DEFAULT_SEGMENT_DEFINITION =
     \<lparr>sd_optional = False, sd_default = PNone, sd_separator = DEFAULT_SEGMENT_SEPARATOR,
      sd_fields = [DEFAULT_SEGMENT_FIELD], sd_name = None\<rparr>"

text \<open>\<^verbatim>\<open>SegmentDefinition.re_pattern\<close>: \<^verbatim>\<open>"".join('(?:{})'.format(x.re_pattern) ...)\<close>\<close>

definition re_pattern :: "SegmentDefinition \<Rightarrow> regex" where
  "re_pattern d = cat_all (map sf_re_pattern (sd_fields d))"

text \<open>\<^verbatim>\<open>SegmentDefinition.required\<close>\<close>

definition required :: "SegmentDefinition \<Rightarrow> bool" where
  "required d = (\<not> sd_optional d \<and> sd_default d = PNone)"

text \<open>\<^verbatim>\<open>SegmentDefinition.validate_value(self, value)\<close>\<close>

definition validate_value :: "SegmentDefinition \<Rightarrow> pyval \<Rightarrow> error + pyval" where
  "validate_value d v =
     (if v = PNone
      then (if \<not> sd_optional d \<and> sd_default d = PNone
            then Inl (ValueError RequiredSegment)
            else Inr v)
      else validate_value_fields v (sd_fields d))"




section \<open>Versions\<close>

text \<open>
  A \<^verbatim>\<open>Version\<close> instance: the \<^verbatim>\<open>SEGMENT_DEFINITIONS\<close> of its class and the raw
  segment values the underlying tuple holds.
\<close>

record Version =
  SEGMENT_DEFINITIONS :: "SegmentDefinition list"
  raw_items :: "pyval list"

text \<open>
  \<^verbatim>\<open>Version._get_definitions(cls)\<close>. The class attribute is a list of segment
  definitions by its type; the names that are set must be unique. (The properties the
  method adds to the class for the segment names are not modelled.)
\<close>

definition segment_names :: "SegmentDefinition list \<Rightarrow> string list" where
  "segment_names defs =
     map the (filter (\<lambda>n. n \<noteq> None \<and> n \<noteq> Some []) (map sd_name defs))"

definition get_definitions :: "SegmentDefinition list \<Rightarrow> error + SegmentDefinition list" where
  "get_definitions cls =
     (if length (segment_names cls) \<noteq> length (remdups (segment_names cls))
      then Inl (ValueError SegmentNamesNotUnique)
      else Inr cls)"

text \<open>\<^verbatim>\<open>"(?P<segment{}>{})".format(i, d.re_pattern)\<close> names the group of segment \<open>i\<close>.\<close>

definition segment_group :: "nat \<Rightarrow> string" where
  "segment_group i = ''segment'' @ digits i"

text \<open>The body of the loop of \<^verbatim>\<open>Version._get_re\<close>: the pattern of segment \<open>i\<close>.\<close>

definition re_segment :: "SegmentDefinition list \<Rightarrow> nat \<Rightarrow> regex" where
  "re_segment definitions i =
     (let d = definitions ! i;
          grp = Group (segment_group i) (re_pattern d);
          seg = (if i > 0
                 then Cat (if list_all (\<lambda>x. \<not> required x) (take i definitions)
                           then Opt (literal (sd_separator d))
                           else literal (sd_separator d)) grp
                 else grp)
      in if \<not> required d then Opt seg else seg)"

text \<open>\<^verbatim>\<open>Version._get_re(cls)\<close>: \<^verbatim>\<open>'^' + re + '$'\<close>\<close>

definition get_re :: "SegmentDefinition list \<Rightarrow> regex" where
  "get_re definitions =
     Cat Bol (Cat (cat_all (map (re_segment definitions) [0..<length definitions])) Eol)"

text \<open>\<^verbatim>\<open>match.groups()\<close>: every group of the pattern, \<^verbatim>\<open>None\<close> where it took no part.\<close>

definition groups :: "regex \<Rightarrow> captures \<Rightarrow> pyval list" where
  "groups r m = map (\<lambda>n. case m n of None \<Rightarrow> PNone | Some g \<Rightarrow> Atom (SStr g)) (group_names r)"

text \<open>\<^verbatim>\<open>string.split(DEFAULT_SEGMENT_SEPARATOR)\<close>, the separator being one character.\<close>

fun split_on :: "char \<Rightarrow> string \<Rightarrow> string list" where
  "split_on c [] = [[]]"
| "split_on c (x # xs) =
     (if x = c then [] # split_on c xs
      else (case split_on c xs of [] \<Rightarrow> [[x]] | w # ws \<Rightarrow> (x # w) # ws))"

text \<open>
  \<^verbatim>\<open>dict([(segment_definitions[i].name, i) for i in range(...) if segment_definitions[i].name])\<close>:
  a later pair replaces an earlier one of the same name.
\<close>

definition segment_indices :: "SegmentDefinition list \<Rightarrow> string \<rightharpoonup> nat" where
  "segment_indices defs =
     map_of (rev (map (\<lambda>i. (the (sd_name (defs ! i)), i))
                      (filter (\<lambda>i. sd_name (defs ! i) \<noteq> None \<and> sd_name (defs ! i) \<noteq> Some [])
                              [0..<length defs])))"

text \<open>
  The loop over \<^verbatim>\<open>kwargs.items()\<close>. \<open>mutable\<close> tells whether \<^verbatim>\<open>args\<close> is a list
  (it is the tuple \<^verbatim>\<open>match.groups()\<close> after a string was matched); item
  assignment to a tuple is a \<^verbatim>\<open>TypeError\<close>.
\<close>

fun assign_kwargs ::
  "(string \<rightharpoonup> nat) \<Rightarrow> bool \<Rightarrow> (string \<times> pyval) list \<Rightarrow> pyval list \<Rightarrow> error + pyval list"
where
  "assign_kwargs idx mutable [] args = Inr args"
| "assign_kwargs idx mutable ((k, v) # kwargs) args =
     (case idx k of
        None \<Rightarrow> Inl (KeyError NoSuchSegment)
      | Some i \<Rightarrow>
          if \<not> mutable then Inl (TypeError TupleItemAssignment)
          else if i < length args then assign_kwargs idx mutable kwargs (args[i := v])
          else Inl (IndexError OutOfRange))"

text \<open>The list comprehension that validates \<^verbatim>\<open>args[i]\<close> for \<open>i\<close> from \<open>i\<close> on.\<close>

fun validate_args :: "SegmentDefinition list \<Rightarrow> nat \<Rightarrow> pyval list \<Rightarrow> error + pyval list" where
  "validate_args defs i [] = Inr []"
| "validate_args defs i (a # as) =
     (case (if defs \<noteq> []
            then (if i < length defs then Inr (defs ! i) else Inl (IndexError OutOfRange))
            else Inr DEFAULT_SEGMENT_DEFINITION) of
        Inl e \<Rightarrow> Inl e
      | Inr d \<Rightarrow>
         (case validate_value d a of
            Inl e \<Rightarrow> Inl e
          | Inr v \<Rightarrow> (case validate_args defs (Suc i) as of
                       Inl e \<Rightarrow> Inl e
                     | Inr vs \<Rightarrow> Inr (v # vs))))"

text \<open>
  The first part of \<^verbatim>\<open>Version.__new__\<close>: the sequence \<^verbatim>\<open>args\<close> before the keyword
  arguments are looked at, with whether it is a list.
\<close>

definition positional_args ::
  "SegmentDefinition list \<Rightarrow> pyval list \<Rightarrow> error + bool \<times> pyval list"
where
  "positional_args segment_definitions args =
     (case args of
        [Atom (SStr string)] \<Rightarrow>
          if segment_definitions \<noteq> []
          then (case re_match (get_re segment_definitions) string of
                  None \<Rightarrow> Inl (ValueError NoMatchVersionString)
                | Some m \<Rightarrow> Inr (False, groups (get_re segment_definitions) m))
          else Inr (True, map (\<lambda>t. Atom (SStr t)) (split_on CHR ''.'' string))
      | _ \<Rightarrow>
          if segment_definitions \<noteq> []
          then (if length args > length segment_definitions
                then Inl (ValueError TooManySegmentValues)
                else Inr (True, pad_values (length segment_definitions) PNone args))
          else if args = [] then Inl (ValueError ValuesRequired)
          else Inr (True, args))"

text \<open>
  \<^verbatim>\<open>Version.__new__(cls, *args, **kwargs)\<close>; \<^verbatim>\<open>validate\<close> of the base class does
  nothing.
\<close>

definition Version_new ::
  "SegmentDefinition list \<Rightarrow> pyval list \<Rightarrow> (string \<times> pyval) list \<Rightarrow> error + Version"
where
  "Version_new cls args kwargs =
     (case get_definitions cls of
        Inl e \<Rightarrow> Inl e
      | Inr segment_definitions \<Rightarrow>
         (case positional_args segment_definitions args of
            Inl e \<Rightarrow> Inl e
          | Inr (mutable, args1) \<Rightarrow>
             (case assign_kwargs (segment_indices segment_definitions) mutable kwargs args1 of
                Inl e \<Rightarrow> Inl e
              | Inr args2 \<Rightarrow>
                 (case validate_args segment_definitions 0 args2 of
                    Inl e \<Rightarrow> Inl e
                  | Inr args3 \<Rightarrow>
                      Inr \<lparr>SEGMENT_DEFINITIONS = cls, raw_items = args3\<rparr>))))"

subsection \<open>Item access\<close>


definition get_segment_definitions :: "Version \<Rightarrow> SegmentDefinition list" where
  "get_segment_definitions self =
     (if SEGMENT_DEFINITIONS self \<noteq> [] then SEGMENT_DEFINITIONS self
      else replicate (length (raw_items self)) DEFAULT_SEGMENT_DEFINITION)"


text \<open>The inner function \<^verbatim>\<open>get(v, d)\<close> of \<^verbatim>\<open>__getitem__\<close>.\<close>

definition get :: "pyval \<Rightarrow> SegmentDefinition \<Rightarrow> pyval" where
  "get v d = (if v \<noteq> PNone then v else sd_default d)"


text \<open>\<^verbatim>\<open>self[:]\<close>: \<^verbatim>\<open>tuple(map(get, value, definition))\<close>, as long as the shorter of the two.\<close>

definition getslice :: "Version \<Rightarrow> pyval list" where
  "getslice self = map (\<lambda>(v, d). get v d) (zip (raw_items self) (get_segment_definitions self))"

subsection \<open>Rendering\<close>










subsection \<open>Comparison\<close>

text \<open>
  Python 3 orders two \<^verbatim>\<open>int\<close>s, two \<^verbatim>\<open>str\<close>s (by code points) and two tuples (by
  the first pair of items that are not equal, else by length); any other pair is a
  \<^verbatim>\<open>TypeError\<close>. Equality of these values is structural.
\<close>

fun str_lt :: "string \<Rightarrow> string \<Rightarrow> bool" where
  "str_lt [] [] = False"
| "str_lt [] (y # ys) = True"
| "str_lt (x # xs) [] = False"
| "str_lt (x # xs) (y # ys) =
     (if x = y then str_lt xs ys else (of_char x :: nat) < of_char y)"











section \<open>The Python version schemes\<close>

text \<open>The segment definitions of \<^verbatim>\<open>verschemes.python\<close>, as their constructor calls give them.\<close>

definition PythonMajorVersion :: "SegmentDefinition list" where
  "PythonMajorVersion = [DEFAULT_SEGMENT_DEFINITION]"

definition PythonMinorVersion :: "SegmentDefinition list" where
  "PythonMinorVersion = PythonMajorVersion @ [DEFAULT_SEGMENT_DEFINITION]"

definition PythonMicroVersion :: "SegmentDefinition list" where
  "PythonMicroVersion = PythonMinorVersion @ [DEFAULT_SEGMENT_DEFINITION\<lparr>sd_optional := True\<rparr>]"

definition releaselevel :: SegmentField where
  "releaselevel =
     \<lparr>sf_type = TStr, sf_name = ''releaselevel'', sf_re_pattern = Chars ''+abc'',
      sf_render = py_str\<rparr>"

definition serial :: SegmentField where
  "serial =
     \<lparr>sf_type = TInt, sf_name = ''serial'',
      sf_re_pattern = Alt (Behind ''+'') (Cat (NotBehind ''+'') DEFAULT_PATTERN),
      sf_render = (\<lambda>x. if x = SNone then [] else py_str x)\<rparr>"

definition SUFFIX_DEFINITION :: SegmentDefinition where
  "SUFFIX_DEFINITION =
     \<lparr>sd_optional = True, sd_default = PNone, sd_separator = [],
      sd_fields = [releaselevel, serial], sd_name = None\<rparr>"

definition PythonVersion :: "SegmentDefinition list" where
  "PythonVersion = PythonMicroVersion @ [SUFFIX_DEFINITION]"

section \<open>Two built-in types as operands\<close>



section \<open>Reading a rendered version back\<close>


section \<open>Auxiliary notions for the proofs\<close>

text \<open>The groups that every match of a pattern sets.\<close>

fun sure_groups :: "regex \<Rightarrow> string set" where
  "sure_groups (Group n a) = insert n (sure_groups a)"
| "sure_groups (Cat a b) = sure_groups a \<union> sure_groups b"
| "sure_groups (Alt a b) = sure_groups a \<inter> sure_groups b"
| "sure_groups r = {}"

fun item_groups :: "item \<Rightarrow> string set" where
  "item_groups (M r) = sure_groups r"
| "item_groups (Close n s) = {n}"

section \<open>Properties\<close>

subsection \<open>Evaluation\<close>

lemmas eval_defs =
  Version_new_def get_definitions_def segment_names_def positional_args_def get_re_def
  re_segment_def required_def re_pattern_def segment_group_def digits.simps digit_char_def
  groups_def re_match_def segment_indices_def validate_value_def validate_value_fields_def
  value_string_def fields_pattern_def decode_field_def int_of_str_def strip_def is_space_def
  is_digit_def digits_val_def digit_val_def render_typed_def str_int_def pad_values.simps
  PythonVersion_def PythonMicroVersion_def PythonMinorVersion_def PythonMajorVersion_def
  SUFFIX_DEFINITION_def serial_def releaselevel_def DEFAULT_SEGMENT_DEFINITION_def
  DEFAULT_SEGMENT_FIELD_def DEFAULT_PATTERN_def digit19_def digit09_def
  DEFAULT_SEGMENT_SEPARATOR_def


subsection \<open>Padding and validation of the arguments\<close>

lemma pad_values_replicate: "pad_values n a xs = xs @ replicate (n - length xs) a"
proof (induction n a xs rule: pad_values.induct)
  case (1 n a xs)
  show ?case
  proof (cases "length xs < n")
    case True
    then have "pad_values n a xs = pad_values n a (xs @ [a])"
      by (simp add: pad_values.simps)
    also have "\<dots> = (xs @ [a]) @ replicate (n - length (xs @ [a])) a"
      using 1 True by simp
    also have "\<dots> = xs @ replicate (n - length xs) a"
      using True by (simp add: replicate_app_Cons_same Suc_diff_Suc flip: replicate_Suc)
    finally show ?thesis .
  next
    case False
    then show ?thesis by (simp add: pad_values.simps)
  qed
qed

lemma validate_args_length:
  "validate_args defs i as = Inr vs \<Longrightarrow> length vs = length as"
  by (induction as arbitrary: i vs) (auto split: sum.splits if_splits)

lemma validate_value_PNone_result:
  "validate_value d PNone = Inr v \<Longrightarrow> v = PNone"
  by (auto simp: validate_value_def split: if_splits)

lemma validate_args_nth_PNone:
  "validate_args defs i as = Inr vs \<Longrightarrow> j < length as \<Longrightarrow> as ! j = PNone \<Longrightarrow> vs ! j = PNone"
proof (induction as arbitrary: i vs j)
  case Nil
  then show ?case by simp
next
  case (Cons a as)
  then show ?case
    by (cases j) (auto split: sum.splits if_splits dest: validate_value_PNone_result)
qed

lemma positional_args_values:
  assumes "cls \<noteq> []" and "\<not> (\<exists>s. args = [Atom (SStr s)])"
  shows "positional_args cls args =
           (if length args > length cls then Inl (ValueError TooManySegmentValues)
            else Inr (True, pad_values (length cls) PNone args))"
  using assms
  by (auto simp: positional_args_def split: list.splits pyval.splits scalar.splits)

text \<open>
  C7. Validating an absent value fails exactly when the segment is not optional and
  has no default, with the error of a required segment; otherwise the absent value
  comes back as it is, and no default is put in its place.
\<close>

theorem validate_value_absent:
  "((\<exists>e. validate_value d PNone = Inl e) \<longleftrightarrow> (\<not> sd_optional d \<and> sd_default d = PNone))
   \<and> (required d \<longrightarrow> validate_value d PNone = Inl (ValueError RequiredSegment))
   \<and> (\<not> required d \<longrightarrow> validate_value d PNone = Inr PNone)"
  by (simp add: validate_value_def required_def)

theorem validate_value_absent_witness:
  "required DEFAULT_SEGMENT_DEFINITION
   \<and> validate_value DEFAULT_SEGMENT_DEFINITION PNone = Inl (ValueError RequiredSegment)
   \<and> \<not> required (DEFAULT_SEGMENT_DEFINITION\<lparr>sd_default := Atom (SInt 0)\<rparr>)
   \<and> validate_value (DEFAULT_SEGMENT_DEFINITION\<lparr>sd_default := Atom (SInt 0)\<rparr>) PNone = Inr PNone"
proof -
  have r: "required DEFAULT_SEGMENT_DEFINITION"
    by (simp add: required_def DEFAULT_SEGMENT_DEFINITION_def)
  have n: "\<not> required (DEFAULT_SEGMENT_DEFINITION\<lparr>sd_default := Atom (SInt 0)\<rparr>)"
    by (simp add: required_def)
  from r n validate_value_absent [of DEFAULT_SEGMENT_DEFINITION]
    validate_value_absent [of "DEFAULT_SEGMENT_DEFINITION\<lparr>sd_default := Atom (SInt 0)\<rparr>"]
  show ?thesis by blast
qed

text \<open>
  C8. For a class whose segment definitions are accepted: with explicit segments, more
  positional values than segments is the error of too many segment values; with the
  implicit definitions, no value at all is the error that values are required; and
  within the bounds the positional values (not the single string, which is parsed)
  are padded with \<^verbatim>\<open>None\<close> up to the number of segments, so that a version made
  from them has one item per segment and \<^verbatim>\<open>None\<close> at the padded places.
\<close>

theorem too_many_values:
  assumes "get_definitions cls = Inr cls"
  shows "(cls \<noteq> [] \<and> length args > length cls \<longrightarrow>
            Version_new cls args kwargs = Inl (ValueError TooManySegmentValues))
       \<and> (Version_new [] [] kwargs = Inl (ValueError ValuesRequired))
       \<and> (cls \<noteq> [] \<and> length args \<le> length cls \<and> \<not> (\<exists>s. args = [Atom (SStr s)]) \<longrightarrow>
            positional_args cls args = Inr (True, args @ replicate (length cls - length args) PNone)
          \<and> (\<forall>v. Version_new cls args [] = Inr v \<longrightarrow>
                 length (raw_items v) = length cls
               \<and> (\<forall>j. length args \<le> j \<and> j < length cls \<longrightarrow> raw_items v ! j = PNone)))"
proof (intro conjI impI)
  assume h: "cls \<noteq> [] \<and> length cls < length args"
  then have "\<not> (\<exists>s. args = [Atom (SStr s)])"
    by (cases cls) auto
  with h show "Version_new cls args kwargs = Inl (ValueError TooManySegmentValues)"
    using assms by (simp add: Version_new_def positional_args_values)
next
  show "Version_new [] [] kwargs = Inl (ValueError ValuesRequired)"
    by (simp add: Version_new_def get_definitions_def segment_names_def positional_args_def)
next
  assume h: "cls \<noteq> [] \<and> length args \<le> length cls \<and> \<not> (\<exists>s. args = [Atom (SStr s)])"
  then show "positional_args cls args = Inr (True, args @ replicate (length cls - length args) PNone)"
    by (simp add: positional_args_values pad_values_replicate)
next
  assume h: "cls \<noteq> [] \<and> length args \<le> length cls \<and> \<not> (\<exists>s. args = [Atom (SStr s)])"
  then have pa: "positional_args cls args = Inr (True, args @ replicate (length cls - length args) PNone)"
    by (simp add: positional_args_values pad_values_replicate)
  show "\<forall>v. Version_new cls args [] = Inr v \<longrightarrow>
                 length (raw_items v) = length cls
               \<and> (\<forall>j. length args \<le> j \<and> j < length cls \<longrightarrow> raw_items v ! j = PNone)"
  proof (intro allI impI)
    fix v assume "Version_new cls args [] = Inr v"
    then obtain vs where va: "validate_args cls 0 (args @ replicate (length cls - length args) PNone) = Inr vs"
      and v: "v = \<lparr>SEGMENT_DEFINITIONS = cls, raw_items = vs\<rparr>"
      using assms pa by (auto simp: Version_new_def split: sum.splits)
    have len: "length vs = length cls"
      using validate_args_length [OF va] h by simp
    have "\<forall>j. length args \<le> j \<and> j < length cls \<longrightarrow> vs ! j = PNone"
    proof (intro allI impI)
      fix j assume j: "length args \<le> j \<and> j < length cls"
      then have "(args @ replicate (length cls - length args) PNone) ! j = PNone"
        by (auto simp: nth_append)
      with validate_args_nth_PNone [OF va, of j] j h show "vs ! j = PNone" by simp
    qed
    with len v show "length (raw_items v) = length cls
               \<and> (\<forall>j. length args \<le> j \<and> j < length cls \<longrightarrow> raw_items v ! j = PNone)"
      by simp
  qed
qed

theorem too_many_values_witness:
  "get_definitions PythonMicroVersion = Inr PythonMicroVersion
   \<and> Version_new PythonMicroVersion
        [Atom (SInt 3), Atom (SInt 4), Atom (SInt 1), Atom (SInt 0)] []
       = Inl (ValueError TooManySegmentValues)
   \<and> positional_args PythonMicroVersion [Atom (SInt 3), Atom (SInt 4)]
       = Inr (True, [Atom (SInt 3), Atom (SInt 4), PNone])
   \<and> Version_new PythonMicroVersion [Atom (SInt 3), Atom (SInt 4)] []
       = Inr \<lparr>SEGMENT_DEFINITIONS = PythonMicroVersion,
              raw_items = [Atom (SInt 3), Atom (SInt 4), PNone]\<rparr>"
proof -
  have g: "get_definitions PythonMicroVersion = Inr PythonMicroVersion"
    by (simp add: eval_defs)
  have l: "length PythonMicroVersion = 3" "PythonMicroVersion \<noteq> []"
    by (simp_all add: eval_defs)
  have c: "Version_new PythonMicroVersion [Atom (SInt 3), Atom (SInt 4)] []
       = Inr \<lparr>SEGMENT_DEFINITIONS = PythonMicroVersion,
              raw_items = [Atom (SInt 3), Atom (SInt 4), PNone]\<rparr>"
    by (simp add: eval_defs)
  from too_many_values [OF g, of "[Atom (SInt 3), Atom (SInt 4), Atom (SInt 1), Atom (SInt 0)]" "[]"]
    too_many_values [OF g, of "[Atom (SInt 3), Atom (SInt 4)]" "[]"] g l c
  show ?thesis by (simp add: numeral_3_eq_3)
qed

subsection \<open>Groups of a match, and the errors of validation\<close>

lemma rmatch_captures:
  "rmatch k p s c = Some m \<Longrightarrow> dom c \<subseteq> dom m \<and> (\<Union>it\<in>set k. item_groups it) \<subseteq> dom m"
proof (induction k p s c arbitrary: m rule: rmatch.induct)
  case (2 n s0 k p s c)
  from "2.prems" have "rmatch k p s (c(n \<mapsto> take (length s0 - length s) s0)) = Some m"
    by simp
  from "2.IH" [OF this]
  have a: "dom (c(n \<mapsto> take (length s0 - length s) s0)) \<subseteq> dom m"
    and b: "(\<Union>it\<in>set k. item_groups it) \<subseteq> dom m"
    by blast+
  have "dom (c(n \<mapsto> take (length s0 - length s) s0)) = insert n (dom c)"
    by (auto simp: dom_def)
  with a b show ?case by auto
next
  case (7 a b k p s c)
  then show ?case by (auto split: option.splits)
next
  case (8 a k p s c)
  then show ?case by (auto split: option.splits)
next
  case (10 cs k p x xs c)
  show ?case
  proof (cases "x \<in> set cs")
    case True
    show ?thesis
    proof (cases "rmatch (M (Rep cs) # k) (Some x) xs c")
      case None
      with True "10.prems" have "rmatch k p (x # xs) c = Some m" by simp
      with "10.IH"(2) True None show ?thesis by simp
    next
      case (Some r)
      with True "10.prems" have "rmatch (M (Rep cs) # k) (Some x) xs c = Some m" by simp
      with "10.IH"(1) True show ?thesis by simp
    qed
  next
    case False
    with "10.prems" have "rmatch k p (x # xs) c = Some m" by simp
    with "10.IH"(3) False show ?thesis by simp
  qed
qed (auto split: option.splits if_splits)

lemma sure_groups_cat_all:
  "sure_groups (cat_all (map (\<lambda>x. Group (sf_name x) (sf_re_pattern x)) flds)) \<supseteq> sf_name ` set flds"
  by (induction flds) auto

lemma fields_pattern_groups:
  assumes "re_match (fields_pattern flds) t = Some m" and "x \<in> set flds"
  shows "m (sf_name x) \<noteq> None"
proof -
  from rmatch_captures [OF assms(1) [unfolded re_match_def]]
  have "sure_groups (fields_pattern flds) \<subseteq> dom m" by simp
  moreover have "sf_name x \<in> sure_groups (fields_pattern flds)"
    using sure_groups_cat_all [of flds] assms(2) by (auto simp: fields_pattern_def)
  ultimately show ?thesis by auto
qed

lemma int_of_str_error: "int_of_str s = Inl e \<Longrightarrow> e = ValueError InvalidLiteralForInt"
  by (auto simp: int_of_str_def Let_def split: if_splits)

lemma apply_type_error:
  "apply_type t y = Inl e \<Longrightarrow> y \<noteq> SNone \<Longrightarrow> e = ValueError InvalidLiteralForInt"
  by (cases t; cases y) (auto split: sum.splits dest: int_of_str_error)

lemma join_rendered_error:
  "join_rendered xys = Inl e \<Longrightarrow> e = ValueError InvalidLiteralForInt"
  by (induction xys rule: join_rendered.induct)
     (auto simp: render_typed_def split: sum.splits if_splits dest: apply_type_error)

lemma decode_fields_error:
  "decode_fields m flds = Inl e \<Longrightarrow> \<forall>x\<in>set flds. m (sf_name x) \<noteq> None \<Longrightarrow>
     e = ValueError InvalidLiteralForInt"
  by (induction flds)
     (auto simp: decode_field_def split: sum.splits option.splits if_splits dest: apply_type_error)

lemma validate_value_fields_error:
  assumes "validate_value_fields v flds = Inl e"
  shows "\<exists>r. e = ValueError r"
proof (cases "value_string v flds")
  case (Inl e1)
  then have "e = e1" using assms by (simp add: validate_value_fields_def)
  moreover have "e1 = ValueError TooManyFieldValues \<or> e1 = ValueError InvalidLiteralForInt"
    using Inl
    by (auto simp: value_string_def Let_def split: pyval.splits scalar.splits if_splits
             dest: join_rendered_error)
  ultimately show ?thesis by auto
next
  case (Inr t)
  show ?thesis
  proof (cases "re_match (fields_pattern flds) t")
    case None
    with Inr assms show ?thesis by (auto simp: validate_value_fields_def)
  next
    case (Some m)
    with Inr assms have "decode_fields m flds = Inl e"
      by (simp add: validate_value_fields_def split: sum.splits)
    with decode_fields_error [of m flds e] fields_pattern_groups [OF Some]
    show ?thesis by blast
  qed
qed

text \<open>The constructor calls of the library give the definitions used here.\<close>

lemma DEFAULT_SEGMENT_DEFINITION_new:
  "SegmentDefinition_new False PNone DEFAULT_SEGMENT_SEPARATOR [DEFAULT_SEGMENT_FIELD] None
     = Inr DEFAULT_SEGMENT_DEFINITION"
  by (simp add: SegmentDefinition_new_def DEFAULT_SEGMENT_DEFINITION_def)

lemma SUFFIX_DEFINITION_new:
  "SegmentDefinition_new True PNone [] [releaselevel, serial] None = Inr SUFFIX_DEFINITION"
  by (simp add: SegmentDefinition_new_def SUFFIX_DEFINITION_def releaselevel_def serial_def)

text \<open>
  C9. A default that is not \<^verbatim>\<open>None\<close> and fails the validation against the fields
  makes the constructor of the segment definition fail with a \<^verbatim>\<open>ValueError\<close>; and
  a segment definition that the constructor does give has either no default or the
  value that the validation of the given default returned.
\<close>

theorem invalid_default_rejected:
  "(dflt \<noteq> PNone \<and> validate_value_fields dflt flds = Inl e \<longrightarrow>
      (\<exists>r. SegmentDefinition_new optional dflt separator flds name = Inl (ValueError r)))
   \<and> (SegmentDefinition_new optional dflt separator flds name = Inr d \<longrightarrow>
        (if dflt = PNone then sd_default d = PNone
         else validate_value_fields dflt flds = Inr (sd_default d)))"
proof (intro conjI impI)
  assume "dflt \<noteq> PNone \<and> validate_value_fields dflt flds = Inl e"
  with validate_value_fields_error [of dflt flds e]
  show "\<exists>r. SegmentDefinition_new optional dflt separator flds name = Inl (ValueError r)"
    by (auto simp: SegmentDefinition_new_def)
next
  assume "SegmentDefinition_new optional dflt separator flds name = Inr d"
  then show "if dflt = PNone then sd_default d = PNone
         else validate_value_fields dflt flds = Inr (sd_default d)"
    by (auto simp: SegmentDefinition_new_def split: if_splits sum.splits option.splits list.splits)
qed

theorem invalid_default_rejected_witness:
  "validate_value_fields (Atom (SStr ''x'')) [DEFAULT_SEGMENT_FIELD] = Inl (ValueError NoMatchSegment)
   \<and> (\<exists>r. SegmentDefinition_new False (Atom (SStr ''x'')) ''.'' [DEFAULT_SEGMENT_FIELD] None
            = Inl (ValueError r))
   \<and> SegmentDefinition_new True (Atom (SStr ''0'')) ''.'' [DEFAULT_SEGMENT_FIELD] None
        = Inr (DEFAULT_SEGMENT_DEFINITION\<lparr>sd_optional := True, sd_default := Atom (SInt 0)\<rparr>)
   \<and> validate_value_fields (Atom (SStr ''0'')) [DEFAULT_SEGMENT_FIELD] = Inr (Atom (SInt 0))"
proof -
  have a: "validate_value_fields (Atom (SStr ''x'')) [DEFAULT_SEGMENT_FIELD]
             = Inl (ValueError NoMatchSegment)"
    by (simp add: eval_defs)
  have b: "SegmentDefinition_new True (Atom (SStr ''0'')) ''.'' [DEFAULT_SEGMENT_FIELD] None
        = Inr (DEFAULT_SEGMENT_DEFINITION\<lparr>sd_optional := True, sd_default := Atom (SInt 0)\<rparr>)"
    by (simp add: SegmentDefinition_new_def eval_defs)
  from a b
    invalid_default_rejected [of "Atom (SStr ''x'')" "[DEFAULT_SEGMENT_FIELD]"
      "ValueError NoMatchSegment" False "''.''" None]
    invalid_default_rejected [of "Atom (SStr ''0'')" "[DEFAULT_SEGMENT_FIELD]" _ True "''.''" None
      "DEFAULT_SEGMENT_DEFINITION\<lparr>sd_optional := True, sd_default := Atom (SInt 0)\<rparr>"]
  show ?thesis by simp
qed

subsection \<open>Keyword arguments after a version string\<close>

lemma segment_indices_named:
  assumes "Some k \<in> set (map sd_name cls)" and "k \<noteq> []"
  shows "\<exists>i. segment_indices cls k = Some i"
proof -
  from assms(1) obtain i where i: "i < length cls" "sd_name (cls ! i) = Some k"
    by (auto simp: in_set_conv_nth)
  let ?xs = "map (\<lambda>i. (the (sd_name (cls ! i)), i))
               (filter (\<lambda>i. sd_name (cls ! i) \<noteq> None \<and> sd_name (cls ! i) \<noteq> Some [])
                       [0..<length cls])"
  have "(k, i) \<in> set ?xs" using i assms(2) by (auto simp: image_iff)
  then have "k \<in> fst ` set (rev ?xs)" by force
  then have "map_of (rev ?xs) k \<noteq> None" by (simp only: map_of_eq_None_iff not_not)
  then show ?thesis by (auto simp: segment_indices_def)
qed

text \<open>
  C10. For a class whose definitions are accepted, a single string argument together
  with keyword arguments of which the first names a segment never makes a version: if
  the string matches the grammar of the class, the assignment to the tuple of the
  matched groups is a \<^verbatim>\<open>TypeError\<close> (the keyword value is not applied), and if it
  does not match, the \<^verbatim>\<open>ValueError\<close> of the mismatch is raised before.
\<close>

theorem keyword_after_string:
  assumes "get_definitions cls = Inr cls" and "Some k \<in> set (map sd_name cls)" and "k \<noteq> []"
  shows "Version_new cls [Atom (SStr s)] ((k, v) # kwargs) =
           (if re_match (get_re cls) s = None then Inl (ValueError NoMatchVersionString)
            else Inl (TypeError TupleItemAssignment))"
proof -
  from assms(2) have ne: "cls \<noteq> []" by auto
  from segment_indices_named [OF assms(2,3)] obtain i where i: "segment_indices cls k = Some i" ..
  show ?thesis
    using assms(1) ne i by (auto simp: Version_new_def positional_args_def split: option.splits)
qed

theorem keyword_after_string_witness:
  "get_definitions
     [DEFAULT_SEGMENT_DEFINITION\<lparr>sd_name := Some ''major''\<rparr>,
      DEFAULT_SEGMENT_DEFINITION\<lparr>sd_name := Some ''minor''\<rparr>]
     = Inr [DEFAULT_SEGMENT_DEFINITION\<lparr>sd_name := Some ''major''\<rparr>,
            DEFAULT_SEGMENT_DEFINITION\<lparr>sd_name := Some ''minor''\<rparr>]
   \<and> re_match (get_re [DEFAULT_SEGMENT_DEFINITION\<lparr>sd_name := Some ''major''\<rparr>,
                        DEFAULT_SEGMENT_DEFINITION\<lparr>sd_name := Some ''minor''\<rparr>]) ''3.4'' \<noteq> None
   \<and> Version_new
        [DEFAULT_SEGMENT_DEFINITION\<lparr>sd_name := Some ''major''\<rparr>,
         DEFAULT_SEGMENT_DEFINITION\<lparr>sd_name := Some ''minor''\<rparr>]
        [Atom (SStr ''3.4'')] [(''minor'', Atom (SInt 5))]
       = Inl (TypeError TupleItemAssignment)"
proof -
  let ?cls = "[DEFAULT_SEGMENT_DEFINITION\<lparr>sd_name := Some ''major''\<rparr>,
               DEFAULT_SEGMENT_DEFINITION\<lparr>sd_name := Some ''minor''\<rparr>]"
  have g: "get_definitions ?cls = Inr ?cls"
    by (simp add: eval_defs)
  have n: "Some ''minor'' \<in> set (map sd_name ?cls)" "''minor'' \<noteq> []"
    by simp_all
  have m: "re_match (get_re ?cls) ''3.4'' \<noteq> None"
    by (simp add: eval_defs)
  from keyword_after_string [OF g n, of "''3.4''" "Atom (SInt 5)" "[]"] g m
  show ?thesis by simp
qed

subsection \<open>Comparison with an operand that is not a version\<close>










subsection \<open>The exclusion of defaults in rendering\<close>








subsection \<open>Ordering of two versions\<close>



lemma str_lt_irrefl: "\<not> str_lt a a"
  by (induction a) auto













subsection \<open>The Python scheme on three version strings\<close>

lemma parse_3_4_1_c1:
  "Version_new PythonVersion [Atom (SStr ''3.4.1c1'')] []
     = Inr \<lparr>SEGMENT_DEFINITIONS = PythonVersion,
            raw_items = [Atom (SInt 3), Atom (SInt 4), Atom (SInt 1), Tuple [SStr ''c'', SInt 1]]\<rparr>"
  by (simp add: eval_defs)

lemma parse_3_4_1_plus:
  "Version_new PythonVersion [Atom (SStr ''3.4.1+'')] []
     = Inr \<lparr>SEGMENT_DEFINITIONS = PythonVersion,
            raw_items = [Atom (SInt 3), Atom (SInt 4), Atom (SInt 1), Tuple [SStr ''+'', SNone]]\<rparr>"
  by (simp add: eval_defs)

lemma parse_3_4_1:
  "Version_new PythonVersion [Atom (SStr ''3.4.1'')] []
     = Inr \<lparr>SEGMENT_DEFINITIONS = PythonVersion,
            raw_items = [Atom (SInt 3), Atom (SInt 4), Atom (SInt 1), PNone]\<rparr>"
  by (simp add: eval_defs)

lemma getslice_PythonVersion:
  "getslice \<lparr>SEGMENT_DEFINITIONS = PythonVersion, raw_items = [a, b, c, d]\<rparr> = [a, b, c, d]"
  by (simp add: getslice_def get_def get_segment_definitions_def PythonVersion_def
                PythonMicroVersion_def PythonMinorVersion_def PythonMajorVersion_def
                SUFFIX_DEFINITION_def DEFAULT_SEGMENT_DEFINITION_def)

text \<open>
  C6. For the scheme of \<^verbatim>\<open>PythonVersion\<close>, the strings \<^verbatim>\<open>3.4.1c1\<close>, \<^verbatim>\<open>3.4.1+\<close> and
  \<^verbatim>\<open>3.4.1\<close> make versions whose cooked tuples are \<^verbatim>\<open>(3, 4, 1, ('c', 1))\<close>,
  \<^verbatim>\<open>(3, 4, 1, ('+', None))\<close> and \<^verbatim>\<open>(3, 4, 1, None)\<close>.
\<close>

theorem python_version_parse:
  "(case Version_new PythonVersion [Atom (SStr ''3.4.1c1'')] [] of
      Inl e \<Rightarrow> Inl e | Inr v \<Rightarrow> Inr (getslice v))
     = Inr [Atom (SInt 3), Atom (SInt 4), Atom (SInt 1), Tuple [SStr ''c'', SInt 1]]
   \<and> (case Version_new PythonVersion [Atom (SStr ''3.4.1+'')] [] of
      Inl e \<Rightarrow> Inl e | Inr v \<Rightarrow> Inr (getslice v))
     = Inr [Atom (SInt 3), Atom (SInt 4), Atom (SInt 1), Tuple [SStr ''+'', SNone]]
   \<and> (case Version_new PythonVersion [Atom (SStr ''3.4.1'')] [] of
      Inl e \<Rightarrow> Inl e | Inr v \<Rightarrow> Inr (getslice v))
     = Inr [Atom (SInt 3), Atom (SInt 4), Atom (SInt 1), PNone]"
  by (simp add: parse_3_4_1_c1 parse_3_4_1_plus parse_3_4_1 getslice_PythonVersion)

subsection \<open>Rendering a version and reading it back\<close>



















end
